theory Spec2Isabelle
  imports Complex_Main
begin

section \<open>Python values shared by all tools\<close>

text \<open>
  The exceptions the scripts raise themselves or let through from the interpreter and
  the host. \<open>RuntimeError\<close> is what the host's command layer raises when it rejects a
  command; its argument is the host's message.
\<close>

datatype error =
    ValueError string
  | RuntimeError string
  | IndexError
  | UnboundLocalError string

text \<open>Python list indexing: \<open>xs[i]\<close> with \<open>-len \<le> i < len\<close>, counted from the end when
  \<open>i\<close> is negative; any other index raises \<open>IndexError\<close>.\<close>

definition py_norm_index :: "'a list \<Rightarrow> int \<Rightarrow> nat option" where
  "py_norm_index xs i =
     (if 0 \<le> i \<and> i < int (length xs) then Some (nat i)
      else if i < 0 \<and> - int (length xs) \<le> i then Some (nat (int (length xs) + i))
      else None)"

definition py_getitem :: "'a list \<Rightarrow> int \<Rightarrow> error + 'a" where
  "py_getitem xs i = (case py_norm_index xs i of None \<Rightarrow> Inl IndexError | Some k \<Rightarrow> Inr (xs ! k))"

definition py_setitem :: "'a list \<Rightarrow> int \<Rightarrow> 'a \<Rightarrow> error + 'a list" where
  "py_setitem xs i v =
     (case py_norm_index xs i of None \<Rightarrow> Inl IndexError | Some k \<Rightarrow> Inr (xs[k := v]))"

text \<open>Sequencing of pure computations that may raise.\<close>

definition and_then :: "error + 'a \<Rightarrow> ('a \<Rightarrow> error + 'b) \<Rightarrow> error + 'b" where
  "and_then m f = (case m of Inl e \<Rightarrow> Inl e | Inr a \<Rightarrow> f a)"

text \<open>
  Commands on a state: a command returns a value or raises, and leaves the state as it
  was at that moment (an exception does not undo what the script did before it).
\<close>

datatype 'a outcome = Return 'a | Raise error

type_synonym ('s, 'a) cmd = "'s \<Rightarrow> 'a outcome \<times> 's"

definition bind :: "('s, 'a) cmd \<Rightarrow> ('a \<Rightarrow> ('s, 'b) cmd) \<Rightarrow> ('s, 'b) cmd" where
  "bind m f s = (case m s of (Return a, s') \<Rightarrow> f a s' | (Raise e, s') \<Rightarrow> (Raise e, s'))"

definition seq :: "('s, unit) cmd \<Rightarrow> ('s, 'b) cmd \<Rightarrow> ('s, 'b) cmd" where
  "seq m n = bind m (\<lambda>_. n)"

definition pass :: "('s, unit) cmd" where
  "pass s = (Return (), s)"

definition ret :: "'a \<Rightarrow> ('s, 'a) cmd" where
  "ret a s = (Return a, s)"

definition raise :: "error \<Rightarrow> ('s, 'a) cmd" where
  "raise e s = (Raise e, s)"

text \<open>Reading from the state, and changing it, without a way to fail.\<close>

definition read :: "('s \<Rightarrow> 'a) \<Rightarrow> ('s, 'a) cmd" where
  "read g s = (Return (g s), s)"

definition modify :: "('s \<Rightarrow> 's) \<Rightarrow> ('s, unit) cmd" where
  "modify h s = (Return (), h s)"

fun for_each :: "('a \<Rightarrow> ('s, unit) cmd) \<Rightarrow> 'a list \<Rightarrow> ('s, unit) cmd" where
  "for_each body [] = pass"
| "for_each body (x # xs) = seq (body x) (for_each body xs)"

section \<open>Attribute reorder tool: the list operations\<close>

text \<open>
  \<^verbatim>\<open>a[i], a[j] = a[k], a[l]\<close>: both right-hand reads happen first (left to right), then
  the two stores (left to right).
\<close>

definition tuple_assign :: "'a list \<Rightarrow> int \<Rightarrow> int \<Rightarrow> int \<Rightarrow> int \<Rightarrow> error + 'a list" where
  "tuple_assign xs i j k l =
     and_then (py_getitem xs k) (\<lambda>vk.
     and_then (py_getitem xs l) (\<lambda>vl.
     and_then (py_setitem xs i vk) (\<lambda>ys.
     py_setitem ys j vl)))"

text \<open>
  \<open>move_up\<close> and \<open>move_down\<close> of \<open>AttributeReorderTool\<close>. \<open>selected_attr\<close> is what the
  scroll list answers to \<open>selectIndexedItem\<close>: the 1-based positions of the selected rows,
  empty (or None) when no row is selected. The result is \<open>self.custom_attrs\<close>.
\<close>

definition move_up :: "string list \<Rightarrow> int list \<Rightarrow> error + string list" where
  "move_up custom_attrs selected_attr =
     (case selected_attr of
        [] \<Rightarrow> Inr custom_attrs
      | s # _ \<Rightarrow>
          (let index = s - 1 in
           if index > 0
           then tuple_assign custom_attrs (index - 1) index index (index - 1)
           else Inr custom_attrs))"

definition move_down :: "string list \<Rightarrow> int list \<Rightarrow> error + string list" where
  "move_down custom_attrs selected_attr =
     (case selected_attr of
        [] \<Rightarrow> Inr custom_attrs
      | s # _ \<Rightarrow>
          (let index = s - 1 in
           if index < int (length custom_attrs) - 1
           then tuple_assign custom_attrs (index + 1) index index (index + 1)
           else Inr custom_attrs))"

section \<open>Attribute manipulation tool: the two global lists\<close>

text \<open>
  The module keeps \<open>selection_list\<close> and \<open>target_controller_list\<close>. The functions below
  are the ones that assign to them; the refresh of the scroll lists and the warnings do
  not touch the lists and are left out.
\<close>

record manip_state =
  selection_list :: "string list"
  target_controller_list :: "string list"

definition manip_init :: manip_state where
  "manip_init = \<lparr>selection_list = [], target_controller_list = []\<rparr>"

text \<open>The loop \<^verbatim>\<open>for item in items: if item not in lst: lst.append(item)\<close>.\<close>

fun append_new :: "string list \<Rightarrow> string list \<Rightarrow> string list" where
  "append_new lst [] = lst"
| "append_new lst (item # items) =
     append_new (if item \<notin> set lst then lst @ [item] else lst) items"

text \<open>
  \<open>add_to_selection_list\<close>: \<open>selected_objects\<close> is the host's selection (long names),
  \<open>attrs\<close> the channel box's selected attributes (the same answer for every object).
\<close>

definition add_to_selection_list :: "string list \<Rightarrow> string list \<Rightarrow> manip_state \<Rightarrow> manip_state" where
  "add_to_selection_list selected_objects attrs st =
     (let selected_attributes =
            concat (map (\<lambda>obj. map (\<lambda>attr. obj @ ''.'' @ attr) attrs) selected_objects)
      in if selected_attributes = [] then st
         else st\<lparr>selection_list := append_new (selection_list st) selected_attributes\<rparr>)"

definition remove_from_selection_list :: "string \<Rightarrow> manip_state \<Rightarrow> manip_state" where
  "remove_from_selection_list item_to_remove st =
     (if item_to_remove \<in> set (selection_list st)
      then st\<lparr>selection_list := remove1 item_to_remove (selection_list st)\<rparr>
      else st)"

definition clear_selection_list :: "manip_state \<Rightarrow> manip_state" where
  "clear_selection_list st = st\<lparr>selection_list := []\<rparr>"

text \<open>\<open>remove_selected_from_list\<close>: one \<open>remove_from_selection_list\<close> per selected row.\<close>

definition remove_selected_from_list :: "string list \<Rightarrow> manip_state \<Rightarrow> manip_state" where
  "remove_selected_from_list selected_items st =
     fold remove_from_selection_list selected_items st"

definition load_target_controllers :: "string list \<Rightarrow> manip_state \<Rightarrow> manip_state" where
  "load_target_controllers selected_objects st =
     (if selected_objects = [] then st
      else st\<lparr>target_controller_list :=
                 append_new (target_controller_list st) selected_objects\<rparr>)"

text \<open>
  The button "Remove Selected from Target List" passes the scroll list's whole answer
  (a list of rows, or None) as \<open>item_to_remove\<close>; a direct caller may pass one name.
  A list of names and None are never members of a list of names.
\<close>

datatype item_arg = Name string | Rows "string list" | NoRows

fun remove_from_target_list :: "item_arg \<Rightarrow> manip_state \<Rightarrow> manip_state" where
  "remove_from_target_list (Name item_to_remove) st =
     (if item_to_remove \<in> set (target_controller_list st)
      then st\<lparr>target_controller_list := remove1 item_to_remove (target_controller_list st)\<rparr>
      else st)"
| "remove_from_target_list (Rows _) st = st"
| "remove_from_target_list NoRows st = st"

definition clear_target_list :: "manip_state \<Rightarrow> manip_state" where
  "clear_target_list st = st\<lparr>target_controller_list := []\<rparr>"

text \<open>One user action on the tool, and a session of actions from the freshly loaded module.\<close>

datatype manip_op =
    AddToSelection "string list" "string list"
  | RemoveFromSelection string
  | RemoveSelected "string list"
  | ClearSelection
  | LoadTargets "string list"
  | RemoveFromTargets item_arg
  | ClearTargets

fun manip_step :: "manip_op \<Rightarrow> manip_state \<Rightarrow> manip_state" where
  "manip_step (AddToSelection objs attrs) st = add_to_selection_list objs attrs st"
| "manip_step (RemoveFromSelection item) st = remove_from_selection_list item st"
| "manip_step (RemoveSelected items) st = remove_selected_from_list items st"
| "manip_step ClearSelection st = clear_selection_list st"
| "manip_step (LoadTargets objs) st = load_target_controllers objs st"
| "manip_step (RemoveFromTargets item) st = remove_from_target_list item st"
| "manip_step ClearTargets st = clear_target_list st"

definition manip_run :: "manip_op list \<Rightarrow> manip_state" where
  "manip_run ops = fold manip_step ops manip_init"

definition no_duplicates :: "manip_state \<Rightarrow> bool" where
  "no_duplicates st = (distinct (selection_list st) \<and> distinct (target_controller_list st))"


section \<open>The host scene, as far as the attribute tools use it\<close>

text \<open>
  The scripts name a plug \<^verbatim>\<open>f"{node}.{attr}"\<close>; the model keeps the two parts as a pair.
  An attribute of a node carries the properties the tools query and set. \<open>proxy\<close> is
  the plug a proxy attribute mirrors: such an attribute owns no storage and shows the
  value of that plug through a live connection; \<open>None\<close> for an attribute that owns its
  value.
\<close>

type_synonym plug = "string \<times> string"

record attribute =
  attributeType :: string
  minimum :: "real option"
  maximum :: "real option"
  enumName :: string
  attr_value :: real
  lock :: bool
  keyable :: bool
  channelBox :: bool
  proxy :: "plug option"

text \<open>
  A scene: the attributes that exist, in the order the host lists them (a new
  attribute goes last), the connections as (source, destination) pairs, and what
  \<open>cmds.warning\<close> has printed.
\<close>

record scene =
  attrs :: "(plug \<times> attribute) list"
  conns :: "(plug \<times> plug) list"
  warnings :: "string list"

text \<open>What \<open>addAttr\<close> creates when a flag is not given.\<close>

definition new_attribute :: "string \<Rightarrow> attribute" where
  "new_attribute ty =
     \<lparr>attributeType = ty, minimum = None, maximum = None, enumName = [], attr_value = 0,
      lock = False, keyable = False, channelBox = False, proxy = None\<rparr>"

definition no_such_attribute :: error where
  "no_such_attribute = RuntimeError ''No object matches name''"

text \<open>
  The host commands. A query or an edit of an attribute that does not exist is
  rejected by the host; so is \<open>addAttr\<close> for a name that is taken. \<open>deleteAttr\<close>
  removes the attribute together with its connections; \<open>addAttr\<close> with the \<open>proxy\<close>
  flag connects the new attribute from the plug it mirrors. \<open>connectAttr\<close> is called
  without the \<open>force\<close> flag everywhere in the scripts, so the host refuses it for a
  destination that already has an incoming connection; it also refuses to disconnect
  what is not connected. The host's other refusals
  (locked or referenced nodes, plugs of incompatible types) are not part of this
  model.
\<close>

definition query :: "plug \<Rightarrow> (attribute \<Rightarrow> 'a) \<Rightarrow> ('s scene_scheme, 'a) cmd" where
  "query p field s =
     (case map_of (attrs s) p of
        None \<Rightarrow> (Raise no_such_attribute, s)
      | Some a \<Rightarrow> (Return (field a), s))"

definition edit :: "plug \<Rightarrow> (attribute \<Rightarrow> attribute) \<Rightarrow> ('s scene_scheme, unit) cmd" where
  "edit p f s =
     (case map_of (attrs s) p of
        None \<Rightarrow> (Raise no_such_attribute, s)
      | Some a \<Rightarrow>
          (Return (),
           s\<lparr>attrs := map (\<lambda>(k, v). if k = p then (k, f v) else (k, v)) (attrs s)\<rparr>))"

definition sources :: "plug \<Rightarrow> (plug \<times> plug) list \<Rightarrow> plug list" where
  "sources p cs = map fst (filter (\<lambda>c. snd c = p) cs)"

definition destinations :: "plug \<Rightarrow> (plug \<times> plug) list \<Rightarrow> plug list" where
  "destinations p cs = map snd (filter (\<lambda>c. fst c = p) cs)"

definition listConnections_sources :: "plug \<Rightarrow> ('s scene_scheme, plug list) cmd" where
  "listConnections_sources p s = (Return (sources p (conns s)), s)"

definition listConnections_destinations :: "plug \<Rightarrow> ('s scene_scheme, plug list) cmd" where
  "listConnections_destinations p s = (Return (destinations p (conns s)), s)"

definition deleteAttr :: "plug \<Rightarrow> ('s scene_scheme, unit) cmd" where
  "deleteAttr p s =
     (case map_of (attrs s) p of
        None \<Rightarrow> (Raise no_such_attribute, s)
      | Some a \<Rightarrow>
          (Return (),
           s\<lparr>attrs := filter (\<lambda>(k, v). k \<noteq> p) (attrs s),
             conns := filter (\<lambda>c. fst c \<noteq> p \<and> snd c \<noteq> p) (conns s)\<rparr>))"

definition addAttr :: "plug \<Rightarrow> attribute \<Rightarrow> ('s scene_scheme, unit) cmd" where
  "addAttr p a s =
     (case map_of (attrs s) p of
        Some _ \<Rightarrow> (Raise (RuntimeError ''Found an attribute of the same name''), s)
      | None \<Rightarrow>
          (Return (),
           s\<lparr>attrs := attrs s @ [(p, a)],
             conns := (case proxy a of None \<Rightarrow> conns s | Some src \<Rightarrow> conns s @ [(src, p)])\<rparr>))"

definition already_connected :: error where
  "already_connected = RuntimeError ''Destination already has an incoming connection''"

definition connectAttr :: "plug \<Rightarrow> plug \<Rightarrow> ('s scene_scheme, unit) cmd" where
  "connectAttr src dst s =
     (if sources dst (conns s) = []
      then (Return (), s\<lparr>conns := conns s @ [(src, dst)]\<rparr>)
      else (Raise already_connected, s))"

definition not_connected :: error where
  "not_connected = RuntimeError ''There is no connection to disconnect''"

definition disconnectAttr :: "plug \<Rightarrow> plug \<Rightarrow> ('s scene_scheme, unit) cmd" where
  "disconnectAttr src dst s =
     (if (src, dst) \<in> set (conns s)
      then (Return (), s\<lparr>conns := filter (\<lambda>c. c \<noteq> (src, dst)) (conns s)\<rparr>)
      else (Raise not_connected, s))"

definition warning :: "string \<Rightarrow> ('s scene_scheme, unit) cmd" where
  "warning msg s = (Return (), s\<lparr>warnings := warnings s @ [msg]\<rparr>)"

text \<open>A proxy attribute in the sense of the glossary: it exists and mirrors a plug.\<close>

definition is_proxy :: "'s scene_scheme \<Rightarrow> plug \<Rightarrow> bool" where
  "is_proxy s p = (case map_of (attrs s) p of None \<Rightarrow> False | Some a \<Rightarrow> proxy a \<noteq> None)"

section \<open>Attribute reorder tool: Apply Reordering\<close>

definition proxy_message :: "string \<Rightarrow> plug \<Rightarrow> string" where
  "proxy_message attr src =
     ''Recreated proxy attribute '' @ attr @ '' with connection to '' @ fst src @ ''.'' @ snd src"

text \<open>
  The part of the loop body after \<open>deleteAttr\<close>, up to the restoring of the output
  connections. The arguments are the loop's local variables; a query that answered
  None (no minimum, no maximum, not an enum) is \<open>None\<close> here.
\<close>

definition recreate_attribute ::
  "plug \<Rightarrow> string \<Rightarrow> plug option \<Rightarrow> string \<Rightarrow> real \<Rightarrow> real option \<Rightarrow> real option
     \<Rightarrow> string option \<Rightarrow> bool \<Rightarrow> bool \<Rightarrow> ('s scene_scheme, unit) cmd" where
  "recreate_attribute p attr proxy_source attr_type attr_val min_value max_value
       enum_options is_keyable is_locked =
     (case proxy_source of
        Some src \<Rightarrow>
          seq (addAttr p ((new_attribute ''proxy'')\<lparr>proxy := Some src\<rparr>))
              (warning (proxy_message attr src))
      | None \<Rightarrow>
          seq (if attr_type = ''double'' then
                 seq (addAttr p (new_attribute ''double''))
                (seq (case min_value of
                        None \<Rightarrow> pass
                      | Some v \<Rightarrow> edit p (\<lambda>a. a\<lparr>minimum := Some v\<rparr>))
                     (case max_value of
                        None \<Rightarrow> pass
                      | Some v \<Rightarrow> edit p (\<lambda>a. a\<lparr>maximum := Some v\<rparr>)))
               else if attr_type = ''enum'' then
                 addAttr p ((new_attribute ''enum'')
                              \<lparr>enumName := (case enum_options of Some e \<Rightarrow> e | None \<Rightarrow> [])\<rparr>)
               else pass)
         (seq (edit p (\<lambda>a. a\<lparr>attr_value := attr_val\<rparr>))
         (seq (edit p (\<lambda>a. a\<lparr>lock := is_locked\<rparr>))
              (edit p (\<lambda>a. a\<lparr>keyable := is_keyable\<rparr>)))))"

text \<open>The body of the loop of \<open>apply_reorder\<close>, for one attribute of the controller.\<close>

definition reorder_attribute :: "string \<Rightarrow> string \<Rightarrow> ('s scene_scheme, unit) cmd" where
  "reorder_attribute controller attr =
     (let attr_long_name = (controller, attr) in
      bind (listConnections_sources attr_long_name) (\<lambda>inputs.
      let proxy_source = (case inputs of [] \<Rightarrow> None | i # _ \<Rightarrow> Some i) in
      bind (query attr_long_name attr_value) (\<lambda>attr_val.
      bind (query attr_long_name attributeType) (\<lambda>attr_type.
      bind (query attr_long_name minimum) (\<lambda>min_value.
      bind (query attr_long_name maximum) (\<lambda>max_value.
      bind (if attr_type = ''enum''
            then bind (query attr_long_name enumName) (\<lambda>e. ret (Some e))
            else ret None) (\<lambda>enum_options.
      bind (query attr_long_name keyable) (\<lambda>is_keyable.
      bind (query attr_long_name lock) (\<lambda>is_locked.
      bind (listConnections_destinations attr_long_name) (\<lambda>outputs.
      seq (deleteAttr attr_long_name)
     (seq (recreate_attribute attr_long_name attr proxy_source attr_type attr_val
             min_value max_value enum_options is_keyable is_locked)
          (for_each (\<lambda>output_conn. connectAttr attr_long_name output_conn) outputs))))))))))))"

text \<open>
  \<open>apply_reorder\<close>: \<open>controller\<close> is \<open>self.controller\<close> (None until a controller was
  picked; an empty name is as false as None), \<open>custom_attrs\<close> is \<open>self.custom_attrs\<close>.
\<close>

definition apply_reorder :: "string option \<Rightarrow> string list \<Rightarrow> ('s scene_scheme, unit) cmd" where
  "apply_reorder controller custom_attrs =
     (case controller of
        None \<Rightarrow> warning ''No controller selected.''
      | Some c \<Rightarrow>
          if c = [] then warning ''No controller selected.''
          else seq (for_each (reorder_attribute c) custom_attrs)
                   (warning ''Attributes reordered successfully.''))"

text \<open>The scene right after \<open>deleteAttr p\<close> succeeded.\<close>

definition without :: "plug \<Rightarrow> 's scene_scheme \<Rightarrow> 's scene_scheme" where
  "without p s =
     s\<lparr>attrs := filter (\<lambda>(k, v). k \<noteq> p) (attrs s),
       conns := filter (\<lambda>c. fst c \<noteq> p \<and> snd c \<noteq> p) (conns s)\<rparr>"

text \<open>Two small scenes: a controller with an integer attribute, and a controller whose
  attribute is keyed (driven by an animation curve) but owns its value.\<close>

definition long_scene :: scene where
  "long_scene =
     \<lparr>attrs = [((''ctrl'', ''count''),
                (new_attribute ''long'')\<lparr>attr_value := 3, keyable := True\<rparr>)],
      conns = [], warnings = []\<rparr>"

definition anim_scene :: scene where
  "anim_scene =
     \<lparr>attrs = [((''ctrl'', ''bend''),
                (new_attribute ''double'')\<lparr>attr_value := 3, keyable := True\<rparr>)],
      conns = [((''animCurveTU1'', ''output''), (''ctrl'', ''bend''))], warnings = []\<rparr>"

section \<open>Attribute lock tool: native transform attributes\<close>

text \<open>
  The host's attribute table for this tool: the attribute at a plug, if the plug
  exists. \<open>objExists\<close> on a plug name asks whether it does; \<open>setAttr\<close> with the
  \<open>lock\<close> and \<open>keyable\<close> flags sets the two flags of an existing plug.
\<close>

type_synonym attribute_table = "plug \<Rightarrow> attribute option"

record checkboxes =
  tx_cb :: bool
  rx_cb :: bool
  sx_cb :: bool
  vis_cb :: bool
  all_cb :: bool

definition objExists_plug :: "plug \<Rightarrow> attribute_table \<Rightarrow> bool" where
  "objExists_plug p tbl = (tbl p \<noteq> None)"

definition setAttr_lock_keyable :: "plug \<Rightarrow> bool \<Rightarrow> bool \<Rightarrow> attribute_table \<Rightarrow> attribute_table" where
  "setAttr_lock_keyable p l k tbl =
     (case tbl p of None \<Rightarrow> tbl | Some a \<Rightarrow> tbl(p \<mapsto> a\<lparr>lock := l, keyable := k\<rparr>))"

text \<open>The list \<open>attributes\<close> that \<open>set_native_attributes\<close> builds from the checkboxes.\<close>

definition checked_attributes :: "checkboxes \<Rightarrow> string list" where
  "checked_attributes cb =
     (if all_cb cb
      then [''tx'', ''ty'', ''tz'', ''rx'', ''ry'', ''rz'', ''sx'', ''sy'', ''sz'', ''v'']
      else (if tx_cb cb then [''tx'', ''ty'', ''tz''] else [])
         @ (if rx_cb cb then [''rx'', ''ry'', ''rz''] else [])
         @ (if sx_cb cb then [''sx'', ''sy'', ''sz''] else [])
         @ (if vis_cb cb then [''v''] else []))"

text \<open>The body of the inner loop: one attribute of one object.\<close>

definition lock_one :: "bool \<Rightarrow> bool \<Rightarrow> string \<Rightarrow> string \<Rightarrow> attribute_table \<Rightarrow> attribute_table" where
  "lock_one l k obj attr tbl =
     (if objExists_plug (obj, attr) tbl then setAttr_lock_keyable (obj, attr) l k tbl else tbl)"

text \<open>
  \<open>set_native_attributes\<close>: the checkboxes' values, the host's selection and the
  attribute table; the result is the table afterwards and the warnings printed.
\<close>

definition set_native_attributes ::
  "int \<Rightarrow> checkboxes \<Rightarrow> string list \<Rightarrow> attribute_table \<Rightarrow> attribute_table \<times> string list" where
  "set_native_attributes lock_state cb selected_objects tbl =
     (if selected_objects = []
      then (tbl, [''No objects selected!''])
      else
        (let lock = (if lock_state = 0 then True else False);
             keyable = (if lock_state = 0 then False else True);
             attributes = checked_attributes cb
         in (fold (\<lambda>obj. fold (lock_one lock keyable obj) attributes) selected_objects tbl,
             [])))"

text \<open>A table with two objects, and the panel with only Translate checked.\<close>

definition lock_table :: attribute_table where
  "lock_table =
     [(''cube'', ''ty'') \<mapsto> (new_attribute ''doubleLinear'')\<lparr>attr_value := 2, keyable := True\<rparr>,
      (''cube'', ''rx'') \<mapsto> (new_attribute ''doubleAngle'')\<lparr>keyable := True\<rparr>,
      (''ball'', ''ty'') \<mapsto> (new_attribute ''doubleLinear'')\<lparr>keyable := True\<rparr>]"

definition translate_only :: checkboxes where
  "translate_only = \<lparr>tx_cb = True, rx_cb = False, sx_cb = False, vis_cb = False, all_cb = False\<rparr>"

section \<open>The host scene, as far as the node-graph tools use it\<close>

text \<open>\<open>str(i)\<close> for a non-negative integer, as the scripts' f-strings print an index.\<close>

definition digit :: "nat \<Rightarrow> char" where
  "digit d = ''0123456789'' ! d"

fun str_nat :: "nat \<Rightarrow> string" where
  "str_nat n = (if n < 10 then [digit n] else str_nat (n div 10) @ [digit (n mod 10)])"

declare str_nat.simps [simp del]

text \<open>
  The scene of the graph tools adds to the attributes and connections: the nodes with
  their types in creation order, the current value of every built-in plug, the DAG
  parent of a node, and the confirmation dialogs shown.
\<close>

record graph_scene = scene +
  nodes :: "(string \<times> string) list"
  vals :: "plug \<Rightarrow> real"
  parents :: "string \<Rightarrow> string option"
  dialogs :: "string list"

text \<open>
  \<open>createNode\<close> never fails on a name that is taken: the host makes the name unique
  with a number suffix and returns the name it gave. The model tries the suffixes
  1, 2, ... in turn; one more candidate than there are names always has a free one.
\<close>

definition unique_name :: "string list \<Rightarrow> string \<Rightarrow> string" where
  "unique_name used name =
     (if name \<notin> set used then name
      else case find (\<lambda>cand. cand \<notin> set used)
                  (map (\<lambda>k. name @ str_nat k) [1 ..< length used + 2]) of
             Some cand \<Rightarrow> cand
           | None \<Rightarrow> name)"

definition createNode :: "string \<Rightarrow> string \<Rightarrow> ('s graph_scene_scheme, string) cmd" where
  "createNode node_type name s =
     (let n = unique_name (map fst (nodes s)) name
      in (Return n, s\<lparr>nodes := nodes s @ [(n, node_type)]\<rparr>))"

definition objExists :: "string \<Rightarrow> 's graph_scene_scheme \<Rightarrow> bool" where
  "objExists name s = (name \<in> set (map fst (nodes s)))"


definition getAttr :: "plug \<Rightarrow> ('s graph_scene_scheme, real) cmd" where
  "getAttr p s = (Return (vals s p), s)"

definition setAttr :: "plug \<Rightarrow> real \<Rightarrow> ('s graph_scene_scheme, unit) cmd" where
  "setAttr p v s = (Return (), s\<lparr>vals := (vals s)(p := v)\<rparr>)"

definition confirmDialog :: "string \<Rightarrow> ('s graph_scene_scheme, unit) cmd" where
  "confirmDialog msg s = (Return (), s\<lparr>dialogs := dialogs s @ [msg]\<rparr>)"

section \<open>UV sliding tool: Run Script\<close>














section \<open>Matrix constraint tool\<close>

text \<open>
  The widgets the tool reads: a checkbox or slider that does not exist (the window is
  closed) is \<open>None\<close>. Querying a widget that does not exist is an error of the host;
  the tool tests for existence before some of its queries and not before others.
\<close>

record matrix_ui =
  offsetCheckBox :: "bool option"
  rotateCheckBox :: "bool option"
  scaleCheckBox :: "bool option"
  translateCheckBox :: "bool option"
  translateWeightSlider :: "real option"
  rotateWeightSlider :: "real option"
  scaleWeightSlider :: "real option"

text \<open>The state: the scene and the fields of the \<open>MatrixConstraint\<close> object.\<close>

record matrix_tool = graph_scene +
  blend_matrix_node :: "string option"
  pick_rotate :: bool
  pick_scale :: bool
  pick_translate :: bool
  weight_translate :: real
  weight_rotate :: real
  weight_scale :: real

text \<open>
  Host commands of this tool. \<open>listRelatives(parent=True)\<close> reads the DAG parent,
  \<open>cmds.parent\<close> sets it. \<open>matchTransform\<close> and \<open>select(clear=True)\<close> change transform
  values and the selection, which the model does not hold. The size of an array
  attribute is the number of its elements that are connected as destinations.
\<close>

definition listRelatives_parent :: "string \<Rightarrow> ('s graph_scene_scheme, string option) cmd" where
  "listRelatives_parent obj = read (\<lambda>s. parents s obj)"

definition parent_cmd :: "string \<Rightarrow> string \<Rightarrow> ('s graph_scene_scheme, unit) cmd" where
  "parent_cmd child new_parent = modify (\<lambda>s. s\<lparr>parents := (parents s)(child \<mapsto> new_parent)\<rparr>)"

definition matchTransform :: "string \<Rightarrow> string \<Rightarrow> ('s graph_scene_scheme, unit) cmd" where
  "matchTransform obj target = pass"

definition select_clear :: "('s graph_scene_scheme, unit) cmd" where
  "select_clear = pass"

definition array_size :: "plug \<Rightarrow> 's graph_scene_scheme \<Rightarrow> nat" where
  "array_size p s =
     length (remdups (filter (\<lambda>d. fst d = fst p \<and> take (length (snd p) + 1) (snd d) = snd p @ ''['')
                             (map snd (conns s))))"

definition query_checkbox :: "bool option \<Rightarrow> ('s, bool) cmd" where
  "query_checkbox box =
     (case box of None \<Rightarrow> raise (RuntimeError ''Object not found'') | Some v \<Rightarrow> ret v)"

text \<open>Node names and plugs the tool builds with f-strings.\<close>

definition hold_matrix_name :: "string \<Rightarrow> string \<Rightarrow> string" where
  "hold_matrix_name object_02 object_01 = ''holdMat_'' @ object_02 @ ''_cc_by_'' @ object_01"

definition mult_matrix_name :: "string \<Rightarrow> string \<Rightarrow> string" where
  "mult_matrix_name object_02 object_01 = ''multMat_'' @ object_02 @ ''_cc_by_'' @ object_01"

definition pick_matrix_name :: "string \<Rightarrow> string \<Rightarrow> string" where
  "pick_matrix_name object_02 object_01 = ''pickMat_'' @ object_02 @ ''_cc_by_'' @ object_01"

definition target_plug :: "string \<Rightarrow> nat \<Rightarrow> string \<Rightarrow> plug" where
  "target_plug blend i field = (blend, ''target['' @ str_nat i @ ''].'' @ field)"

definition update_pick_matrix_options :: "matrix_ui \<Rightarrow> (matrix_tool, unit) cmd" where
  "update_pick_matrix_options ui =
     modify (\<lambda>s. s\<lparr>pick_rotate := (case rotateCheckBox ui of Some v \<Rightarrow> v | None \<Rightarrow> pick_rotate s),
                    pick_scale := (case scaleCheckBox ui of Some v \<Rightarrow> v | None \<Rightarrow> pick_scale s),
                    pick_translate :=
                      (case translateCheckBox ui of Some v \<Rightarrow> v | None \<Rightarrow> pick_translate s)\<rparr>)"

text \<open>The body of the loop over the targets in \<open>update_blend_matrix_weights\<close>.\<close>

definition set_target_weights :: "string \<Rightarrow> real \<Rightarrow> real \<Rightarrow> real \<Rightarrow> nat \<Rightarrow> (matrix_tool, unit) cmd" where
  "set_target_weights blend wt wr ws i =
     seq (setAttr (target_plug blend i ''translateWeight'') wt)
    (seq (setAttr (target_plug blend i ''rotateWeight'') wr)
         (setAttr (target_plug blend i ''scaleWeight'') ws))"

definition update_blend_matrix_weights :: "matrix_ui \<Rightarrow> (matrix_tool, unit) cmd" where
  "update_blend_matrix_weights ui =
     seq (modify (\<lambda>s. s\<lparr>weight_translate :=
                           (case translateWeightSlider ui of Some v \<Rightarrow> v | None \<Rightarrow> weight_translate s),
                         weight_rotate :=
                           (case rotateWeightSlider ui of Some v \<Rightarrow> v | None \<Rightarrow> weight_rotate s),
                         weight_scale :=
                           (case scaleWeightSlider ui of Some v \<Rightarrow> v | None \<Rightarrow> weight_scale s)\<rparr>))
    (bind (read blend_matrix_node) (\<lambda>node.
       case node of
         None \<Rightarrow> pass
       | Some blend \<Rightarrow>
           bind (read (objExists blend)) (\<lambda>blend_exists.
           if blend = [] \<or> \<not> blend_exists then pass
           else
             bind (read (array_size (blend, ''target''))) (\<lambda>target_count.
             if target_count = 0 then pass
             else
               bind (read weight_translate) (\<lambda>wt.
               bind (read weight_rotate) (\<lambda>wr.
               bind (read weight_scale) (\<lambda>ws.
               for_each (set_target_weights blend wt wr ws) [0 ..< target_count])))))))"

text \<open>"Disconnect existing connections to offsetParentMatrix".\<close>

definition disconnect_existing :: "plug \<Rightarrow> ('s graph_scene_scheme, unit) cmd" where
  "disconnect_existing dst =
     bind (listConnections_sources dst) (\<lambda>existing_connections.
     for_each (\<lambda>connection. disconnectAttr connection dst) existing_connections)"

definition of_py_bool :: "bool \<Rightarrow> real" where
  "of_py_bool b = (if b then 1 else 0)"

text \<open>"Create and connect pickMatrix node": the first lines of both builders.\<close>

definition create_pick_matrix :: "string \<Rightarrow> (matrix_tool, string) cmd" where
  "create_pick_matrix pick_matrix_name' =
     bind (createNode ''pickMatrix'' pick_matrix_name') (\<lambda>pick_matrix.
     bind (read pick_rotate) (\<lambda>r.
     bind (read pick_scale) (\<lambda>sc.
     bind (read pick_translate) (\<lambda>t.
     seq (setAttr (pick_matrix, ''useRotate'') (of_py_bool r))
    (seq (setAttr (pick_matrix, ''useScale'') (of_py_bool sc))
    (seq (setAttr (pick_matrix, ''useTranslate'') (of_py_bool t))
         (ret pick_matrix)))))))"

definition create_with_hold_matrix ::
  "matrix_ui \<Rightarrow> string \<Rightarrow> string \<Rightarrow> string \<Rightarrow> (matrix_tool, unit) cmd" where
  "create_with_hold_matrix ui object_01 object_02 parent =
     seq (update_pick_matrix_options ui)
    (bind (create_pick_matrix (pick_matrix_name object_02 object_01)) (\<lambda>pick_matrix.
     bind (createNode ''multMatrix'' (mult_matrix_name object_02 object_01)) (\<lambda>mult_matrix.
     seq (connectAttr (object_02, ''worldMatrix[0]'') (mult_matrix, ''matrixIn[0]''))
    (seq (connectAttr (object_01, ''worldInverseMatrix[0]'') (mult_matrix, ''matrixIn[1]''))
    (bind (createNode ''holdMatrix'' (hold_matrix_name object_02 object_01)) (\<lambda>hold_matrix.
     seq (connectAttr (mult_matrix, ''matrixSum'') (hold_matrix, ''inMatrix''))
    (seq (disconnectAttr (mult_matrix, ''matrixSum'') (hold_matrix, ''inMatrix''))
    (seq (disconnectAttr (object_02, ''worldMatrix[0]'') (mult_matrix, ''matrixIn[0]''))
    (seq (disconnectAttr (object_01, ''worldInverseMatrix[0]'') (mult_matrix, ''matrixIn[1]''))
    (seq (disconnect_existing (object_02, ''offsetParentMatrix''))
    (seq (connectAttr (hold_matrix, ''outMatrix'') (mult_matrix, ''matrixIn[0]''))
    (seq (connectAttr (object_01, ''worldMatrix[0]'') (pick_matrix, ''inputMatrix''))
    (seq (connectAttr (pick_matrix, ''outputMatrix'') (mult_matrix, ''matrixIn[1]''))
    (seq (connectAttr (parent, ''worldInverseMatrix[0]'') (mult_matrix, ''matrixIn[2]''))
         (connectAttr (mult_matrix, ''matrixSum'') (object_02, ''offsetParentMatrix''))))))))))))))))"

definition create_without_hold_matrix ::
  "matrix_ui \<Rightarrow> string \<Rightarrow> string \<Rightarrow> string \<Rightarrow> (matrix_tool, unit) cmd" where
  "create_without_hold_matrix ui object_01 object_02 parent =
     seq (update_pick_matrix_options ui)
    (bind (create_pick_matrix (pick_matrix_name object_02 object_01)) (\<lambda>pick_matrix.
     bind (createNode ''multMatrix'' (mult_matrix_name object_02 object_01)) (\<lambda>mult_matrix.
     seq (connectAttr (object_01, ''worldMatrix[0]'') (pick_matrix, ''inputMatrix''))
    (seq (connectAttr (pick_matrix, ''outputMatrix'') (mult_matrix, ''matrixIn[0]''))
    (seq (connectAttr (parent, ''worldInverseMatrix[0]'') (mult_matrix, ''matrixIn[1]''))
    (seq (disconnect_existing (object_02, ''offsetParentMatrix''))
         (connectAttr (mult_matrix, ''matrixSum'') (object_02, ''offsetParentMatrix''))))))))"

text \<open>\<^verbatim>\<open>for index, mult_matrix in enumerate(mult_matrices[1:], start=1)\<close>, from \<open>index\<close> on.\<close>

fun connect_targets :: "string \<Rightarrow> nat \<Rightarrow> string list \<Rightarrow> ('s graph_scene_scheme, unit) cmd" where
  "connect_targets blend index [] = pass"
| "connect_targets blend index (mult_matrix # mult_matrices) =
     seq (connectAttr (mult_matrix, ''matrixSum'') (target_plug blend (index - 1) ''targetMatrix''))
         (connect_targets blend (Suc index) mult_matrices)"

definition create_blend_matrix :: "matrix_ui \<Rightarrow> string list \<Rightarrow> string \<Rightarrow> (matrix_tool, unit) cmd" where
  "create_blend_matrix ui mult_matrices constrained_object =
     bind (createNode ''blendMatrix'' (''blendMat_'' @ constrained_object)) (\<lambda>blend.
     seq (modify (\<lambda>s. s\<lparr>blend_matrix_node := Some blend\<rparr>))
    (case mult_matrices of
       [] \<Rightarrow> raise IndexError
     | first # others \<Rightarrow>
         seq (connectAttr (first, ''matrixSum'') (blend, ''inputMatrix''))
        (seq (connect_targets blend 1 others)
        (seq (disconnect_existing (constrained_object, ''offsetParentMatrix''))
        (seq (connectAttr (blend, ''outputMatrix'') (constrained_object, ''offsetParentMatrix''))
             (update_blend_matrix_weights ui))))))"

text \<open>The lines of \<open>create_constraint\<close> and \<open>matrix_cc\<close> that find or create the parent.\<close>

definition find_or_create_parent :: "string \<Rightarrow> (matrix_tool, string) cmd" where
  "find_or_create_parent constrained_object =
     bind (listRelatives_parent constrained_object) (\<lambda>parent.
     case parent of
       None \<Rightarrow>
         bind (createNode ''transform'' (''OFF_'' @ constrained_object)) (\<lambda>offset_constrained_object.
         seq (matchTransform offset_constrained_object constrained_object)
        (seq (parent_cmd constrained_object offset_constrained_object)
        (seq select_clear
             (ret offset_constrained_object))))
     | Some p \<Rightarrow> ret p)"

definition matrix_cc :: "matrix_ui \<Rightarrow> string list \<Rightarrow> (matrix_tool, unit) cmd" where
  "matrix_cc ui selected_objects =
     (if length selected_objects < 2
      then warning ''Select at least two objects.''
      else
        let constraining_objects = butlast selected_objects;
            constrained_object = last selected_objects
        in
        bind (find_or_create_parent constrained_object) (\<lambda>parent.
        bind (query_checkbox (offsetCheckBox ui)) (\<lambda>use_hold_matrix.
        seq (for_each
               (\<lambda>obj. if use_hold_matrix
                      then create_with_hold_matrix ui obj constrained_object parent
                      else create_without_hold_matrix ui obj constrained_object parent)
               constraining_objects)
            (if length constraining_objects > 1
             then create_blend_matrix ui
                    (map (mult_matrix_name constrained_object) constraining_objects)
                    constrained_object
             else pass))))"

definition create_constraint :: "matrix_ui \<Rightarrow> string list \<Rightarrow> (matrix_tool, unit) cmd" where
  "create_constraint ui selected_objects =
     (if length selected_objects < 2
      then raise (ValueError ''Please select at least two objects.'')
      else
        let constraining_objects = butlast selected_objects;
            constrained_object = last selected_objects
        in
        bind (find_or_create_parent constrained_object) (\<lambda>parent.
        bind (query_checkbox (rotateCheckBox ui)) (\<lambda>_.
        bind (query_checkbox (scaleCheckBox ui)) (\<lambda>_.
        bind (query_checkbox (translateCheckBox ui)) (\<lambda>_.
        bind (query_checkbox (offsetCheckBox ui)) (\<lambda>use_hold_matrix.
        seq (if use_hold_matrix
             then for_each (\<lambda>constraining_object.
                     create_with_hold_matrix ui constraining_object constrained_object parent)
                   constraining_objects
             else for_each (\<lambda>constraining_object.
                     create_without_hold_matrix ui constraining_object constrained_object parent)
                   constraining_objects)
            (if length constraining_objects > 1
             then create_blend_matrix ui
                    (map (mult_matrix_name constrained_object) constraining_objects)
                    constrained_object
             else pass)))))))"

text \<open>A scene with three transforms, and the panel as it opens.\<close>

definition matrix_scene :: matrix_tool where
  "matrix_scene =
     \<lparr>attrs = [], conns = [], warnings = [],
      nodes = [(''A'', ''transform''), (''B'', ''transform''), (''C'', ''transform'')],
      vals = (\<lambda>p. 0), parents = (\<lambda>n. None), dialogs = [],
      blend_matrix_node = None, pick_rotate = True, pick_scale = True, pick_translate = True,
      weight_translate = 1 / 2, weight_rotate = 1 / 2, weight_scale = 1 / 2\<rparr>"

definition panel :: matrix_ui where
  "panel =
     \<lparr>offsetCheckBox = Some True, rotateCheckBox = Some True, scaleCheckBox = Some True,
      translateCheckBox = Some True, translateWeightSlider = Some (1 / 2),
      rotateWeightSlider = Some (1 / 2), scaleWeightSlider = Some (1 / 2)\<rparr>"

section \<open>Theorems: attribute reorder list operations\<close>

lemma py_norm_index_int:
  "0 \<le> i \<Longrightarrow> i < int (length xs) \<Longrightarrow> py_norm_index xs i = Some (nat i)"
  by (simp add: py_norm_index_def)

lemma tuple_assign_swap_int:
  assumes "0 \<le> i" "i < int (length xs)" "0 \<le> j" "j < int (length xs)"
  shows "tuple_assign xs i j j i = Inr (xs[nat i := xs ! nat j, nat j := xs ! nat i])"
  using assms
  by (simp add: tuple_assign_def and_then_def py_getitem_def py_setitem_def py_norm_index_int)

lemma move_up_general:
  assumes "1 < p" "p \<le> length xs"
  shows "move_up xs [int p] = Inr (xs[p - 2 := xs ! (p - 1), p - 1 := xs ! (p - 2)])"
proof -
  have n1: "nat (int p - 1 - 1) = p - 2" and n2: "nat (int p - 1) = p - 1"
    by linarith+
  have "move_up xs [int p] =
          tuple_assign xs (int p - 1 - 1) (int p - 1) (int p - 1) (int p - 1 - 1)"
    using assms(1) by (simp add: move_up_def Let_def)
  also have "\<dots> = Inr (xs[nat (int p - 1 - 1) := xs ! nat (int p - 1),
                           nat (int p - 1) := xs ! nat (int p - 1 - 1)])"
    using assms by (intro tuple_assign_swap_int) linarith+
  finally show ?thesis
    unfolding n1 n2 .
qed

lemma move_down_general:
  assumes "1 \<le> p" "p < length xs"
  shows "move_down xs [int p] = Inr (xs[p := xs ! (p - 1), p - 1 := xs ! p])"
proof -
  have n1: "nat (int p - 1 + 1) = p" and n2: "nat (int p - 1) = p - 1"
    using assms(1) by linarith+
  have "move_down xs [int p] =
          tuple_assign xs (int p - 1 + 1) (int p - 1) (int p - 1) (int p - 1 + 1)"
    using assms(2) by (simp add: move_down_def Let_def)
  also have "\<dots> = Inr (xs[nat (int p - 1 + 1) := xs ! nat (int p - 1),
                           nat (int p - 1) := xs ! nat (int p - 1 + 1)])"
    using assms by (intro tuple_assign_swap_int) linarith+
  finally show ?thesis
    unfolding n1 n2 .
qed

lemma move_up_first: "move_up xs [1] = Inr xs"
  by (simp add: move_up_def)

lemma move_down_last: "move_down xs [int (length xs)] = Inr xs"
  by (simp add: move_down_def)

lemma swap_twice:
  assumes "a < length xs" "b < length xs" "a \<noteq> b"
  shows "(xs[a := xs ! b, b := xs ! a])[b := (xs[a := xs ! b, b := xs ! a]) ! a,
                                         a := (xs[a := xs ! b, b := xs ! a]) ! b] = xs"
  using assms by (intro nth_equalityI) (simp_all add: nth_list_update)

text \<open>
  C8. For a list \<open>xs\<close> and a selected 1-based position \<open>p\<close> of it: \<open>move_up\<close> with
  \<open>p > 1\<close> exchanges the entries at (1-based) positions \<open>p - 1\<close> and \<open>p\<close> and changes
  nothing else; \<open>move_up\<close> on position 1 and \<open>move_down\<close> on the last position return
  the list as it is; \<open>move_up\<close> on \<open>p\<close> followed by \<open>move_down\<close> on \<open>p - 1\<close>, where the
  moved item now stands, gives back the original list.
\<close>

theorem move_up_down_positions:
  fixes xs :: "string list" and p :: nat
  assumes "1 \<le> p" and "p \<le> length xs"
  shows "(1 < p \<longrightarrow>
            move_up xs [int p] = Inr (xs[p - 2 := xs ! (p - 1), p - 1 := xs ! (p - 2)]))
       \<and> move_up xs [1] = Inr xs
       \<and> move_down xs [int (length xs)] = Inr xs
       \<and> (1 < p \<longrightarrow>
            and_then (move_up xs [int p]) (\<lambda>ys. move_down ys [int (p - 1)]) = Inr xs)"
proof -
  have roundtrip: "and_then (move_up xs [int p]) (\<lambda>ys. move_down ys [int (p - 1)]) = Inr xs"
    if "1 < p"
  proof -
    let ?ys = "xs[p - 2 := xs ! (p - 1), p - 1 := xs ! (p - 2)]"
    have "move_down ?ys [int (p - 1)] =
            Inr (?ys[p - 1 := ?ys ! (p - 1 - 1), p - 1 - 1 := ?ys ! (p - 1)])"
      using that assms by (intro move_down_general) simp_all
    also have "?ys[p - 1 := ?ys ! (p - 1 - 1), p - 1 - 1 := ?ys ! (p - 1)] = xs"
    proof -
      have e: "p - 1 - 1 = p - 2" by simp
      show ?thesis
        unfolding e using that assms by (intro swap_twice) simp_all
    qed
    finally show ?thesis
      using move_up_general [OF that assms(2)] by (simp add: and_then_def)
  qed
  show ?thesis
    using move_up_general [of p xs] assms(2) move_up_first move_down_last roundtrip by blast
qed

theorem move_up_down_positions_witness:
  "move_up [''a'', ''b'', ''c''] [2] = Inr [''b'', ''a'', ''c'']
   \<and> move_up [''a'', ''b'', ''c''] [1] = Inr [''a'', ''b'', ''c'']
   \<and> move_down [''a'', ''b'', ''c''] [3] = Inr [''a'', ''b'', ''c'']
   \<and> and_then (move_up [''a'', ''b'', ''c''] [2]) (\<lambda>ys. move_down ys [1])
       = Inr [''a'', ''b'', ''c'']"
  using move_up_down_positions [of 2 "[''a'', ''b'', ''c'']"]
  by (auto simp add: and_then_def)

section \<open>Theorems: attribute manipulation lists\<close>

lemma distinct_append_new:
  "distinct lst \<Longrightarrow> distinct (append_new lst items)"
  by (induction items arbitrary: lst) simp_all

lemma distinct_remove_from_selection_list:
  "distinct (selection_list st) \<Longrightarrow> distinct (selection_list (remove_from_selection_list x st))"
  by (simp add: remove_from_selection_list_def)

lemma target_remove_from_selection_list:
  "target_controller_list (remove_from_selection_list x st) = target_controller_list st"
  by (simp add: remove_from_selection_list_def)

lemma fold_remove_from_selection_list:
  "distinct (selection_list st) \<and> distinct (target_controller_list st) \<Longrightarrow>
   distinct (selection_list (fold remove_from_selection_list xs st))
   \<and> distinct (target_controller_list (fold remove_from_selection_list xs st))"
  by (induction xs arbitrary: st)
     (simp_all add: distinct_remove_from_selection_list target_remove_from_selection_list)

lemma manip_step_no_duplicates:
  "no_duplicates st \<Longrightarrow> no_duplicates (manip_step op st)"
proof (cases op)
  case (RemoveSelected items)
  then show "no_duplicates st \<Longrightarrow> no_duplicates (manip_step op st)"
    using fold_remove_from_selection_list [of st items]
    by (simp add: no_duplicates_def remove_selected_from_list_def)
next
  case (RemoveFromTargets item)
  then show "no_duplicates st \<Longrightarrow> no_duplicates (manip_step op st)"
    by (cases item) (simp_all add: no_duplicates_def)
qed (simp_all add: no_duplicates_def add_to_selection_list_def Let_def
       remove_from_selection_list_def clear_selection_list_def load_target_controllers_def
       clear_target_list_def distinct_append_new)

lemma fold_manip_step_no_duplicates:
  "no_duplicates st \<Longrightarrow> no_duplicates (fold manip_step ops st)"
  by (induction ops arbitrary: st) (simp_all add: manip_step_no_duplicates)

text \<open>
  C9. After any sequence of the tool's operations, started from the freshly loaded
  module (both lists empty), neither the attribute selection list nor the target
  controller list contains an entry twice.
\<close>

theorem manip_lists_never_duplicate:
  "distinct (selection_list (manip_run ops)) \<and> distinct (target_controller_list (manip_run ops))"
proof -
  have "no_duplicates manip_init"
    by (simp add: no_duplicates_def manip_init_def)
  then have "no_duplicates (manip_run ops)"
    unfolding manip_run_def by (rule fold_manip_step_no_duplicates)
  then show ?thesis
    by (simp add: no_duplicates_def)
qed


section \<open>Theorems: attribute lock tool\<close>

lemma lock_one_apply:
  "lock_one l k obj attr tbl (o', a) =
     (if o' = obj \<and> a = attr
      then map_option (\<lambda>f. f\<lparr>lock := l, keyable := k\<rparr>) (tbl (o', a))
      else tbl (o', a))"
  by (cases "tbl (obj, attr)")
     (simp_all add: lock_one_def objExists_plug_def setAttr_lock_keyable_def)

lemma relock_idem:
  "map_option (\<lambda>f. f\<lparr>lock := l, keyable := k\<rparr>)
     (map_option (\<lambda>f. f\<lparr>lock := l, keyable := k\<rparr>) v)
   = map_option (\<lambda>f. f\<lparr>lock := l, keyable := k\<rparr>) v"
  by (cases v) simp_all

lemma fold_lock_one:
  "fold (lock_one l k obj) as tbl (o', a)
   = (if o' = obj \<and> a \<in> set as
      then map_option (\<lambda>f. f\<lparr>lock := l, keyable := k\<rparr>) (tbl (o', a))
      else tbl (o', a))"
proof (induction as arbitrary: tbl)
  case Nil
  then show ?case by simp
next
  case (Cons x as)
  show ?case
    by (auto simp add: Cons.IH lock_one_apply relock_idem)
qed

lemma fold_fold_lock_one:
  "fold (\<lambda>obj. fold (lock_one l k obj) as) os tbl (o', a)
   = (if o' \<in> set os \<and> a \<in> set as
      then map_option (\<lambda>f. f\<lparr>lock := l, keyable := k\<rparr>) (tbl (o', a))
      else tbl (o', a))"
proof (induction os arbitrary: tbl)
  case Nil
  then show ?case by simp
next
  case (Cons x os)
  show ?case
    by (auto simp add: Cons.IH fold_lock_one relock_idem)
qed

lemma checked_attributes_member:
  "(attr \<in> set (checked_attributes cb)) =
     (if all_cb cb
      then attr \<in> set [''tx'', ''ty'', ''tz'', ''rx'', ''ry'', ''rz'', ''sx'', ''sy'', ''sz'', ''v'']
      else (tx_cb cb \<and> attr \<in> set [''tx'', ''ty'', ''tz''])
         \<or> (rx_cb cb \<and> attr \<in> set [''rx'', ''ry'', ''rz''])
         \<or> (sx_cb cb \<and> attr \<in> set [''sx'', ''sy'', ''sz''])
         \<or> (vis_cb cb \<and> attr = ''v''))"
  unfolding checked_attributes_def by (cases "all_cb cb") auto

text \<open>
  C7. Lock and Hide (\<open>lock_state = 0\<close>) leaves every plug \<open>obj.attr\<close> with \<open>obj\<close>
  selected and \<open>attr\<close> chosen by the checkboxes locked and not keyable, Unlock
  (\<open>lock_state = 1\<close>) leaves it unlocked and keyable; the other properties of such a
  plug, every other plug, and every plug of an unselected object are as before (a
  chosen attribute that an object does not have stays absent). The chosen attributes
  are: all ten native ones when the All checkbox is on; otherwise \<open>tx\<close>, \<open>ty\<close>, \<open>tz\<close>
  when Translate is on, \<open>rx\<close>, \<open>ry\<close>, \<open>rz\<close> when Rotate is on, \<open>sx\<close>, \<open>sy\<close>, \<open>sz\<close> when
  Scale is on, and \<open>v\<close> when Visibility is on. A warning is printed exactly when
  nothing is selected.
\<close>

theorem set_native_attributes_frame:
  "fst (set_native_attributes 0 cb sel tbl) (obj, attr) =
     (if obj \<in> set sel \<and>
         (if all_cb cb
          then attr \<in> set [''tx'', ''ty'', ''tz'', ''rx'', ''ry'', ''rz'', ''sx'', ''sy'', ''sz'', ''v'']
          else (tx_cb cb \<and> attr \<in> set [''tx'', ''ty'', ''tz''])
             \<or> (rx_cb cb \<and> attr \<in> set [''rx'', ''ry'', ''rz''])
             \<or> (sx_cb cb \<and> attr \<in> set [''sx'', ''sy'', ''sz''])
             \<or> (vis_cb cb \<and> attr = ''v''))
      then map_option (\<lambda>a. a\<lparr>lock := True, keyable := False\<rparr>) (tbl (obj, attr))
      else tbl (obj, attr))
   \<and> fst (set_native_attributes 1 cb sel tbl) (obj, attr) =
     (if obj \<in> set sel \<and>
         (if all_cb cb
          then attr \<in> set [''tx'', ''ty'', ''tz'', ''rx'', ''ry'', ''rz'', ''sx'', ''sy'', ''sz'', ''v'']
          else (tx_cb cb \<and> attr \<in> set [''tx'', ''ty'', ''tz''])
             \<or> (rx_cb cb \<and> attr \<in> set [''rx'', ''ry'', ''rz''])
             \<or> (sx_cb cb \<and> attr \<in> set [''sx'', ''sy'', ''sz''])
             \<or> (vis_cb cb \<and> attr = ''v''))
      then map_option (\<lambda>a. a\<lparr>lock := False, keyable := True\<rparr>) (tbl (obj, attr))
      else tbl (obj, attr))
   \<and> snd (set_native_attributes 0 cb sel tbl) = (if sel = [] then [''No objects selected!''] else [])
   \<and> snd (set_native_attributes 1 cb sel tbl) = (if sel = [] then [''No objects selected!''] else [])"
proof -
  have locked: "fst (set_native_attributes 0 cb sel tbl) (obj, attr) =
     (if obj \<in> set sel \<and> attr \<in> set (checked_attributes cb)
      then map_option (\<lambda>a. a\<lparr>lock := True, keyable := False\<rparr>) (tbl (obj, attr))
      else tbl (obj, attr))"
    by (simp add: set_native_attributes_def Let_def fold_fold_lock_one)
  have unlocked: "fst (set_native_attributes 1 cb sel tbl) (obj, attr) =
     (if obj \<in> set sel \<and> attr \<in> set (checked_attributes cb)
      then map_option (\<lambda>a. a\<lparr>lock := False, keyable := True\<rparr>) (tbl (obj, attr))
      else tbl (obj, attr))"
    by (simp add: set_native_attributes_def Let_def fold_fold_lock_one)
  have warned: "snd (set_native_attributes l cb sel tbl)
                  = (if sel = [] then [''No objects selected!''] else [])" for l
    by (simp add: set_native_attributes_def Let_def)
  show ?thesis
    unfolding locked unlocked warned checked_attributes_member by simp
qed

theorem set_native_attributes_frame_witness:
  "map_option (\<lambda>a. (lock a, keyable a, attr_value a))
     (fst (set_native_attributes 0 translate_only [''cube''] lock_table) (''cube'', ''ty''))
     = Some (True, False, 2)
   \<and> map_option (\<lambda>a. (lock a, keyable a, attr_value a))
     (fst (set_native_attributes 1 translate_only [''cube''] lock_table) (''cube'', ''ty''))
     = Some (False, True, 2)
   \<and> fst (set_native_attributes 0 translate_only [''cube''] lock_table) (''cube'', ''rx'')
     = lock_table (''cube'', ''rx'')
   \<and> fst (set_native_attributes 0 translate_only [''cube''] lock_table) (''cube'', ''tz'') = None
   \<and> fst (set_native_attributes 0 translate_only [''cube''] lock_table) (''ball'', ''ty'')
     = lock_table (''ball'', ''ty'')"
  using set_native_attributes_frame [of translate_only "[''cube'']" lock_table "''cube''" "''ty''"]
    set_native_attributes_frame [of translate_only "[''cube'']" lock_table "''cube''" "''rx''"]
    set_native_attributes_frame [of translate_only "[''cube'']" lock_table "''cube''" "''tz''"]
    set_native_attributes_frame [of translate_only "[''cube'']" lock_table "''ball''" "''ty''"]
  by (simp add: translate_only_def lock_table_def new_attribute_def)

section \<open>Rules for running commands\<close>

lemma bind_ret: "bind (ret v) f s = f v s"
  by (simp add: bind_def ret_def)

lemma bind_pass: "bind pass f s = f () s"
  by (simp add: bind_def pass_def)

lemma bind_raise: "bind (raise e) f s = (Raise e, s)"
  by (simp add: bind_def raise_def)

lemma bind_assoc: "bind (bind m f) g s = bind m (\<lambda>x. bind (f x) g) s"
  by (simp add: bind_def split: prod.splits outcome.splits)

lemma bind_if: "bind (if b then m else n) f s = (if b then bind m f s else bind n f s)"
  by simp

lemma bind_sources: "bind (listConnections_sources p) f s = f (sources p (conns s)) s"
  by (simp add: bind_def listConnections_sources_def)

lemma bind_destinations:
  "bind (listConnections_destinations p) f s = f (destinations p (conns s)) s"
  by (simp add: bind_def listConnections_destinations_def)

lemma bind_query:
  "map_of (attrs s) p = Some x \<Longrightarrow> bind (query p field) f s = f (field x) s"
  by (simp add: bind_def query_def)

lemma bind_deleteAttr:
  "map_of (attrs s) p = Some x \<Longrightarrow> bind (deleteAttr p) f s = f () (without p s)"
  by (simp add: bind_def deleteAttr_def without_def)


lemma bind_warning: "bind (warning msg) f s = f () (s\<lparr>warnings := warnings s @ [msg]\<rparr>)"
  by (simp add: bind_def warning_def)

lemma bind_connectAttr:
  "sources b (conns s) = [] \<Longrightarrow>
   bind (connectAttr a b) f s = f () (s\<lparr>conns := conns s @ [(a, b)]\<rparr>)"
  by (simp add: bind_def connectAttr_def)

lemma bind_connectAttr_refused:
  "sources b (conns s) \<noteq> [] \<Longrightarrow> bind (connectAttr a b) f s = (Raise already_connected, s)"
  by (simp add: bind_def connectAttr_def)

lemma bind_disconnectAttr:
  "(a, b) \<in> set (conns s) \<Longrightarrow>
   bind (disconnectAttr a b) f s = f () (s\<lparr>conns := filter (\<lambda>c. c \<noteq> (a, b)) (conns s)\<rparr>)"
  by (simp add: bind_def disconnectAttr_def)

lemma map_of_filter_neq: "map_of (filter (\<lambda>(k, v). k \<noteq> p) xs) p = None"
  by (induction xs) auto

lemma map_of_without: "map_of (attrs (without p s)) p = None"
  by (simp add: without_def map_of_filter_neq)

lemma warnings_without: "warnings (without p s) = warnings s"
  by (simp add: without_def)

lemma edit_filtered:
  "map (\<lambda>(k, v). if k = p then (k, g v) else (k, v)) (filter (\<lambda>(k, v). k \<noteq> p) xs)
   = filter (\<lambda>(k, v). k \<noteq> p) xs"
  by (induction xs) auto

lemma bind_edit_last:
  "bind (edit p g) f
     \<lparr>attrs = filter (\<lambda>(k, v). k \<noteq> p) xs @ [(p, v)], conns = C, warnings = W, \<dots> = m\<rparr>
   = f () \<lparr>attrs = filter (\<lambda>(k, v). k \<noteq> p) xs @ [(p, g v)], conns = C, warnings = W, \<dots> = m\<rparr>"
  by (simp add: bind_def edit_def map_of_filter_neq map_add_def edit_filtered)

lemma bind_edit_missing:
  "map_of (attrs s) p = None \<Longrightarrow> bind (edit p g) f s = (Raise no_such_attribute, s)"
  by (simp add: bind_def edit_def)

lemma has_source_iff: "(\<exists>src. (src, p) \<in> set cs) = (sources p cs \<noteq> [])"
proof -
  have "(sources p cs \<noteq> []) = (\<exists>cn \<in> set cs. snd cn = p)"
    by (simp add: sources_def filter_empty_conv)
  also have "\<dots> = (\<exists>src. (src, p) \<in> set cs)"
    by force
  finally show ?thesis by simp
qed

section \<open>Theorems: Apply Reordering\<close>

text \<open>
  C1, at a controller \<open>ctrl\<close> whose custom attribute \<open>count\<close> is an integer (\<open>long\<close>)
  with value 3, keyable, without connections: Apply Reordering deletes the attribute,
  recreates nothing (the script recreates only \<open>double\<close> and \<open>enum\<close> attributes), and
  stops on the host's error for the value it then tries to restore. The attribute is
  gone from the scene.
\<close>

theorem apply_reorder_loses_long_attribute:
  "map_option attributeType (map_of (attrs long_scene) (''ctrl'', ''count'')) = Some ''long''
   \<and> apply_reorder (Some ''ctrl'') [''count''] long_scene
       = (Raise no_such_attribute, \<lparr>attrs = [], conns = [], warnings = []\<rparr>)"
  by (simp add: apply_reorder_def reorder_attribute_def recreate_attribute_def long_scene_def
        bind_def seq_def pass_def ret_def query_def edit_def listConnections_sources_def
        listConnections_destinations_def deleteAttr_def addAttr_def sources_def
        destinations_def new_attribute_def Let_def)

text \<open>
  C2, at a controller \<open>ctrl\<close> whose custom attribute \<open>bend\<close> is a keyable \<open>double\<close>
  with value 3 that owns its value and is keyed, that is, driven by the output of an
  animation curve: the attribute is no proxy before Apply Reordering. The script takes
  the incoming connection for the mark of a proxy: Apply Reordering returns normally
  and leaves \<open>bend\<close> as a proxy of the curve's output, of type \<open>proxy\<close> in place of
  \<open>double\<close>, with the value and the keyable flag of a new attribute, not the ones it
  had.
\<close>

theorem keyed_attribute_becomes_proxy:
  "\<not> is_proxy anim_scene (''ctrl'', ''bend'')
   \<and> is_proxy (snd (apply_reorder (Some ''ctrl'') [''bend''] anim_scene)) (''ctrl'', ''bend'')
   \<and> map_option (\<lambda>a. (attributeType a, attr_value a, keyable a, proxy a))
        (map_of (attrs anim_scene) (''ctrl'', ''bend''))
       = Some (''double'', 3, True, None)
   \<and> fst (apply_reorder (Some ''ctrl'') [''bend''] anim_scene) = Return ()
   \<and> map_option (\<lambda>a. (attributeType a, attr_value a, keyable a, proxy a))
        (map_of (attrs (snd (apply_reorder (Some ''ctrl'') [''bend''] anim_scene)))
           (''ctrl'', ''bend''))
       = Some (''proxy'', 0, False, Some (''animCurveTU1'', ''output''))"
  by (simp add: apply_reorder_def reorder_attribute_def recreate_attribute_def anim_scene_def
        bind_def seq_def pass_def ret_def query_def edit_def listConnections_sources_def
        listConnections_destinations_def deleteAttr_def addAttr_def connectAttr_def
        warning_def sources_def destinations_def new_attribute_def Let_def is_proxy_def)

section \<open>Facts about names\<close>






lemma unique_name_unused: "name \<notin> set used \<Longrightarrow> unique_name used name = name"
  by (simp add: unique_name_def)


lemma unique_name_first:
  assumes "name \<in> set used" and "name @ ''1'' \<notin> set used"
  shows "unique_name used name = name @ ''1''"
proof -
  have one: "str_nat (Suc 0) = ''1''"
    by (simp add: str_nat.simps [of "Suc 0"] digit_def)
  have "[Suc 0 ..< length used + 2] = Suc 0 # [Suc (Suc 0) ..< length used + 2]"
    by (rule upt_conv_Cons) simp
  then have cands: "map (\<lambda>k. name @ str_nat k) [Suc 0 ..< length used + 2]
      = (name @ ''1'') # map (\<lambda>k. name @ str_nat k) [Suc (Suc 0) ..< length used + 2]"
    by (simp only: list.map one)
  show ?thesis
    unfolding unique_name_def One_nat_def cands using assms by simp
qed

section \<open>Facts about connections\<close>

lemma sources_Nil: "sources d [] = []"
  by (simp add: sources_def)

lemma sources_Cons:
  "sources d ((a, b) # cs) = (if b = d then a # sources d cs else sources d cs)"
  by (simp add: sources_def)

lemma sources_append: "sources d (xs @ ys) = sources d xs @ sources d ys"
  by (simp add: sources_def)

lemmas sources_simps = sources_Nil sources_Cons sources_append



lemma bind_read: "bind (read g) f s = f (g s) s"
  by (simp add: bind_def read_def)

lemma bind_modify: "bind (modify h) f s = f () (h s)"
  by (simp add: bind_def modify_def)

lemma bind_getAttr: "bind (getAttr p) f s = f (vals s p) s"
  by (simp add: bind_def getAttr_def)

lemma bind_setAttr: "bind (setAttr p v) f s = f () (s\<lparr>vals := (vals s)(p := v)\<rparr>)"
  by (simp add: bind_def setAttr_def)

lemma bind_createNode:
  "bind (createNode ty name) f s =
     f (unique_name (map fst (nodes s)) name)
       (s\<lparr>nodes := nodes s @ [(unique_name (map fst (nodes s)) name, ty)]\<rparr>)"
  by (simp add: bind_def createNode_def Let_def)

lemma bind_confirmDialog:
  "bind (confirmDialog msg) f s = f () (s\<lparr>dialogs := dialogs s @ [msg]\<rparr>)"
  by (simp add: bind_def confirmDialog_def)

lemmas run_rules = bind_ret bind_pass bind_raise bind_assoc bind_if bind_sources
  bind_destinations bind_read bind_modify bind_getAttr bind_setAttr bind_createNode
  bind_confirmDialog bind_warning bind_connectAttr bind_connectAttr_refused
  bind_disconnectAttr seq_def Let_def

lemmas last_rules = pass_def ret_def raise_def warning_def confirmDialog_def connectAttr_def
  disconnectAttr_def setAttr_def

section \<open>Theorems: UV sliding tool\<close>















section \<open>Theorems: matrix constraint tool\<close>

lemmas matrix_defs = matrix_cc_def create_constraint_def find_or_create_parent_def
  create_with_hold_matrix_def create_without_hold_matrix_def create_pick_matrix_def
  update_pick_matrix_options_def disconnect_existing_def create_blend_matrix_def
  update_blend_matrix_weights_def set_target_weights_def query_checkbox_def
  listRelatives_parent_def parent_cmd_def matchTransform_def select_clear_def
  pick_matrix_name_def mult_matrix_name_def hold_matrix_name_def target_plug_def
  array_size_def objExists_def of_py_bool_def

text \<open>The first Apply on the three transforms \<open>A\<close>, \<open>B\<close>, \<open>C\<close>: the nodes it creates
  and the connections it leaves.\<close>

lemma first_apply:
  "\<exists>s1. matrix_cc panel [''A'', ''B'', ''C''] matrix_scene = (Return (), s1)
     \<and> nodes s1 =
         [(''A'', ''transform''), (''B'', ''transform''), (''C'', ''transform''),
          (''OFF_C'', ''transform''),
          (''pickMat_C_cc_by_A'', ''pickMatrix''), (''multMat_C_cc_by_A'', ''multMatrix''),
          (''holdMat_C_cc_by_A'', ''holdMatrix''),
          (''pickMat_C_cc_by_B'', ''pickMatrix''), (''multMat_C_cc_by_B'', ''multMatrix''),
          (''holdMat_C_cc_by_B'', ''holdMatrix''),
          (''blendMat_C'', ''blendMatrix'')]
     \<and> conns s1 =
         [((''holdMat_C_cc_by_A'', ''outMatrix''), (''multMat_C_cc_by_A'', ''matrixIn[0]'')),
          ((''A'', ''worldMatrix[0]''), (''pickMat_C_cc_by_A'', ''inputMatrix'')),
          ((''pickMat_C_cc_by_A'', ''outputMatrix''), (''multMat_C_cc_by_A'', ''matrixIn[1]'')),
          ((''OFF_C'', ''worldInverseMatrix[0]''), (''multMat_C_cc_by_A'', ''matrixIn[2]'')),
          ((''holdMat_C_cc_by_B'', ''outMatrix''), (''multMat_C_cc_by_B'', ''matrixIn[0]'')),
          ((''B'', ''worldMatrix[0]''), (''pickMat_C_cc_by_B'', ''inputMatrix'')),
          ((''pickMat_C_cc_by_B'', ''outputMatrix''), (''multMat_C_cc_by_B'', ''matrixIn[1]'')),
          ((''OFF_C'', ''worldInverseMatrix[0]''), (''multMat_C_cc_by_B'', ''matrixIn[2]'')),
          ((''multMat_C_cc_by_A'', ''matrixSum''), (''blendMat_C'', ''inputMatrix'')),
          ((''multMat_C_cc_by_B'', ''matrixSum''), (''blendMat_C'', ''target[0].targetMatrix'')),
          ((''blendMat_C'', ''outputMatrix''), (''C'', ''offsetParentMatrix''))]
     \<and> parents s1 ''C'' = Some ''OFF_C''"
  by (simp add: matrix_defs run_rules last_rules unique_name_unused sources_simps
        matrix_scene_def panel_def str_nat.simps digit_def)

text \<open>
  C3, at the transforms \<open>A\<close>, \<open>B\<close>, \<open>C\<close> selected in this order, with the panel as it
  opens, when Apply is pressed a second time. The first run leaves \<open>blendMat_C\<close> driven
  by the multMatrix nodes it created. In the second run the host gives the new nodes
  the names \<open>multMat_C_cc_by_A1\<close> and \<open>multMat_C_cc_by_B1\<close>, because the first run's
  nodes hold the names asked for; the builders wire the new nodes by the names the
  host returned, but the list handed to \<open>create_blend_matrix\<close> holds the names asked
  for. So the new \<open>blendMat_C1\<close>, which drives \<open>C.offsetParentMatrix\<close>, takes its
  \<open>inputMatrix\<close> and its \<open>target[0].targetMatrix\<close> from the multMatrix nodes of the
  first run, and the \<open>matrixSum\<close> of this run's multMatrix nodes drives nothing. The
  same holds for \<open>create_constraint\<close>, which collects the names the same way.
\<close>

theorem second_apply_wires_stale_nodes:
  "\<exists>s1 s2 s2'.
     matrix_cc panel [''A'', ''B'', ''C''] matrix_scene = (Return (), s1)
   \<and> sources (''blendMat_C'', ''inputMatrix'') (conns s1) = [(''multMat_C_cc_by_A'', ''matrixSum'')]
   \<and> (''multMat_C_cc_by_A'', ''multMatrix'') \<in> set (nodes s1)
   \<and> (''multMat_C_cc_by_B'', ''multMatrix'') \<in> set (nodes s1)
   \<and> matrix_cc panel [''A'', ''B'', ''C''] s1 = (Return (), s2)
   \<and> nodes s2 = nodes s1 @
        [(''pickMat_C_cc_by_A1'', ''pickMatrix''), (''multMat_C_cc_by_A1'', ''multMatrix''),
         (''holdMat_C_cc_by_A1'', ''holdMatrix''),
         (''pickMat_C_cc_by_B1'', ''pickMatrix''), (''multMat_C_cc_by_B1'', ''multMatrix''),
         (''holdMat_C_cc_by_B1'', ''holdMatrix''),
         (''blendMat_C1'', ''blendMatrix'')]
   \<and> sources (''C'', ''offsetParentMatrix'') (conns s2) = [(''blendMat_C1'', ''outputMatrix'')]
   \<and> sources (''blendMat_C1'', ''inputMatrix'') (conns s2) = [(''multMat_C_cc_by_A'', ''matrixSum'')]
   \<and> sources (''blendMat_C1'', ''target[0].targetMatrix'') (conns s2)
        = [(''multMat_C_cc_by_B'', ''matrixSum'')]
   \<and> destinations (''multMat_C_cc_by_A1'', ''matrixSum'') (conns s2) = []
   \<and> destinations (''multMat_C_cc_by_B1'', ''matrixSum'') (conns s2) = []
   \<and> create_constraint panel [''A'', ''B'', ''C''] s1 = (Return (), s2')
   \<and> sources (''blendMat_C1'', ''inputMatrix'') (conns s2') = [(''multMat_C_cc_by_A'', ''matrixSum'')]
   \<and> destinations (''multMat_C_cc_by_A1'', ''matrixSum'') (conns s2') = []"
proof -
  obtain s1 where first: "matrix_cc panel [''A'', ''B'', ''C''] matrix_scene = (Return (), s1)"
    and nodes1: "nodes s1 =
         [(''A'', ''transform''), (''B'', ''transform''), (''C'', ''transform''),
          (''OFF_C'', ''transform''),
          (''pickMat_C_cc_by_A'', ''pickMatrix''), (''multMat_C_cc_by_A'', ''multMatrix''),
          (''holdMat_C_cc_by_A'', ''holdMatrix''),
          (''pickMat_C_cc_by_B'', ''pickMatrix''), (''multMat_C_cc_by_B'', ''multMatrix''),
          (''holdMat_C_cc_by_B'', ''holdMatrix''),
          (''blendMat_C'', ''blendMatrix'')]"
    and conns1: "conns s1 =
         [((''holdMat_C_cc_by_A'', ''outMatrix''), (''multMat_C_cc_by_A'', ''matrixIn[0]'')),
          ((''A'', ''worldMatrix[0]''), (''pickMat_C_cc_by_A'', ''inputMatrix'')),
          ((''pickMat_C_cc_by_A'', ''outputMatrix''), (''multMat_C_cc_by_A'', ''matrixIn[1]'')),
          ((''OFF_C'', ''worldInverseMatrix[0]''), (''multMat_C_cc_by_A'', ''matrixIn[2]'')),
          ((''holdMat_C_cc_by_B'', ''outMatrix''), (''multMat_C_cc_by_B'', ''matrixIn[0]'')),
          ((''B'', ''worldMatrix[0]''), (''pickMat_C_cc_by_B'', ''inputMatrix'')),
          ((''pickMat_C_cc_by_B'', ''outputMatrix''), (''multMat_C_cc_by_B'', ''matrixIn[1]'')),
          ((''OFF_C'', ''worldInverseMatrix[0]''), (''multMat_C_cc_by_B'', ''matrixIn[2]'')),
          ((''multMat_C_cc_by_A'', ''matrixSum''), (''blendMat_C'', ''inputMatrix'')),
          ((''multMat_C_cc_by_B'', ''matrixSum''), (''blendMat_C'', ''target[0].targetMatrix'')),
          ((''blendMat_C'', ''outputMatrix''), (''C'', ''offsetParentMatrix''))]"
    and parent1: "parents s1 ''C'' = Some ''OFF_C''"
    using first_apply by blast
  have before: "sources (''blendMat_C'', ''inputMatrix'') (conns s1)
                  = [(''multMat_C_cc_by_A'', ''matrixSum'')]"
    "(''multMat_C_cc_by_A'', ''multMatrix'') \<in> set (nodes s1)"
    "(''multMat_C_cc_by_B'', ''multMatrix'') \<in> set (nodes s1)"
    by (simp_all add: nodes1 conns1 sources_simps)
  have "\<exists>s2. matrix_cc panel [''A'', ''B'', ''C''] s1 = (Return (), s2)
     \<and> nodes s2 = nodes s1 @
        [(''pickMat_C_cc_by_A1'', ''pickMatrix''), (''multMat_C_cc_by_A1'', ''multMatrix''),
         (''holdMat_C_cc_by_A1'', ''holdMatrix''),
         (''pickMat_C_cc_by_B1'', ''pickMatrix''), (''multMat_C_cc_by_B1'', ''multMatrix''),
         (''holdMat_C_cc_by_B1'', ''holdMatrix''),
         (''blendMat_C1'', ''blendMatrix'')]
     \<and> sources (''C'', ''offsetParentMatrix'') (conns s2) = [(''blendMat_C1'', ''outputMatrix'')]
     \<and> sources (''blendMat_C1'', ''inputMatrix'') (conns s2)
          = [(''multMat_C_cc_by_A'', ''matrixSum'')]
     \<and> sources (''blendMat_C1'', ''target[0].targetMatrix'') (conns s2)
          = [(''multMat_C_cc_by_B'', ''matrixSum'')]
     \<and> destinations (''multMat_C_cc_by_A1'', ''matrixSum'') (conns s2) = []
     \<and> destinations (''multMat_C_cc_by_B1'', ''matrixSum'') (conns s2) = []"
    by (simp add: matrix_defs run_rules last_rules unique_name_first sources_simps
          destinations_def nodes1 conns1 parent1 panel_def str_nat.simps digit_def)
  then obtain s2 where second: "matrix_cc panel [''A'', ''B'', ''C''] s1 = (Return (), s2)"
    "nodes s2 = nodes s1 @
        [(''pickMat_C_cc_by_A1'', ''pickMatrix''), (''multMat_C_cc_by_A1'', ''multMatrix''),
         (''holdMat_C_cc_by_A1'', ''holdMatrix''),
         (''pickMat_C_cc_by_B1'', ''pickMatrix''), (''multMat_C_cc_by_B1'', ''multMatrix''),
         (''holdMat_C_cc_by_B1'', ''holdMatrix''),
         (''blendMat_C1'', ''blendMatrix'')]"
    "sources (''C'', ''offsetParentMatrix'') (conns s2) = [(''blendMat_C1'', ''outputMatrix'')]"
    "sources (''blendMat_C1'', ''inputMatrix'') (conns s2) = [(''multMat_C_cc_by_A'', ''matrixSum'')]"
    "sources (''blendMat_C1'', ''target[0].targetMatrix'') (conns s2)
        = [(''multMat_C_cc_by_B'', ''matrixSum'')]"
    "destinations (''multMat_C_cc_by_A1'', ''matrixSum'') (conns s2) = []"
    "destinations (''multMat_C_cc_by_B1'', ''matrixSum'') (conns s2) = []"
    by blast
  have "\<exists>s2'. create_constraint panel [''A'', ''B'', ''C''] s1 = (Return (), s2')
     \<and> sources (''blendMat_C1'', ''inputMatrix'') (conns s2')
          = [(''multMat_C_cc_by_A'', ''matrixSum'')]
     \<and> destinations (''multMat_C_cc_by_A1'', ''matrixSum'') (conns s2') = []"
    by (simp add: matrix_defs run_rules last_rules unique_name_first sources_simps
          destinations_def nodes1 conns1 parent1 panel_def str_nat.simps digit_def)
  then obtain s2' where other: "create_constraint panel [''A'', ''B'', ''C''] s1 = (Return (), s2')"
    "sources (''blendMat_C1'', ''inputMatrix'') (conns s2') = [(''multMat_C_cc_by_A'', ''matrixSum'')]"
    "destinations (''multMat_C_cc_by_A1'', ''matrixSum'') (conns s2') = []"
    by blast
  show ?thesis
    using first before second other
    by (intro exI [of _ s1] exI [of _ s2] exI [of _ s2']) simp
qed


end
